theory Spec2Isabelle
  imports Main "HOL-Library.Multiset"
begin

section \<open>Strings\<close>

text \<open>
  A JavaScript string is a sequence of UTF-16 code units; a code unit is modelled as a
  natural number. \<open>js\<close> embeds an ASCII literal of the source.
\<close>

type_synonym jsstring = "nat list"

definition js :: "string \<Rightarrow> jsstring" where
  "js s = map of_char s"

text \<open>
  \<^verbatim>\<open>String.prototype.trim\<close> removes the ECMAScript WhiteSpace and LineTerminator code points
  from both ends: TAB, LF, VT, FF, CR, SPACE, NBSP, the category Zs, LS, PS and the BOM.
\<close>

definition is_ws :: "nat \<Rightarrow> bool" where
  "is_ws c = (c \<in> set [9, 10, 11, 12, 13, 32, 160, 5760, 8192, 8193, 8194, 8195, 8196,
     8197, 8198, 8199, 8200, 8201, 8202, 8232, 8233, 8239, 8287, 12288, 65279])"

definition trim :: "jsstring \<Rightarrow> jsstring" where
  "trim s = rev (dropWhile is_ws (rev (dropWhile is_ws s)))"

text \<open>\<^verbatim>\<open>s.split('@')[0]\<close>: the part of \<open>s\<close> before its first \<open>@\<close> (code unit 64).\<close>

definition split_at_head :: "jsstring \<Rightarrow> jsstring" where
  "split_at_head s = takeWhile (\<lambda>c. c \<noteq> 64) s"

section \<open>The data model (the type declarations of the repository)\<close>

datatype status = Waiting | Playing | Finished

datatype difficulty = Easy | Medium | Hard

record user =
  u_id :: jsstring
  u_email :: jsstring
  u_displayName :: "jsstring option"

record room =
  r_id :: jsstring
  r_name :: jsstring
  r_hostUserId :: jsstring
  r_status :: status
  r_currentQuestionIndex :: nat
  r_createdAt :: jsstring

record player =
  p_id :: jsstring
  p_roomId :: jsstring
  p_userId :: jsstring
  p_displayName :: jsstring
  p_score :: int

record question =
  q_id :: jsstring
  q_question :: jsstring
  q_optionA :: jsstring
  q_optionB :: jsstring
  q_optionC :: jsstring
  q_optionD :: jsstring
  q_correctAnswer :: jsstring
  q_category :: jsstring
  q_difficulty :: difficulty

record gameAnswer =
  a_id :: jsstring
  a_roomId :: jsstring
  a_questionId :: jsstring
  a_userId :: jsstring
  a_selectedAnswer :: jsstring
  a_isCorrect :: bool
  a_answeredAt :: jsstring

text \<open>
  \<^verbatim>\<open>user.displayName || user.email.split('@')[0]\<close>: an absent or empty display name is
  falsy, and the e-mail's local part is taken instead.
\<close>

definition displayNameOf :: "user \<Rightarrow> jsstring" where
  "displayNameOf usr =
     (case u_displayName usr of
        None \<Rightarrow> split_at_head (u_email usr)
      | Some n \<Rightarrow> (if n = [] then split_at_head (u_email usr) else n))"

section \<open>The remote record store, notifications and the log of issued calls\<close>

text \<open>
  The store behind \<^verbatim>\<open>blink.db\<close> is a vendor service. Each table is a list of records in
  insertion order; the questions table is kept in ascending id order. A call to the store
  either succeeds or throws: every handler below takes the outcome of each call it awaits
  as a boolean argument, and a call that throws leaves the table as it was. Values that
  the source draws from the clock or the random generator (record ids, timestamps) are
  arguments as well.
\<close>

record database =
  db_rooms :: "room list"
  db_players :: "player list"
  db_questions :: "question list"
  db_gameAnswers :: "gameAnswer list"

datatype db_call =
    ListPlayers jsstring
  | ListQuestions
  | FindPlayer jsstring jsstring
  | CreateRoom room
  | UpdateRoom jsstring status nat
  | CreatePlayer player
  | UpdatePlayer jsstring int
  | CreateAnswer gameAnswer
  | Publish jsstring jsstring jsstring jsstring

datatype variant = Default | Destructive

datatype notice =
    Toast jsstring jsstring variant
  | ConsoleError jsstring

record env =
  db :: database
  out :: "notice list"
  calls :: "db_call list"

definition toast :: "string \<Rightarrow> jsstring \<Rightarrow> variant \<Rightarrow> 'a env_scheme \<Rightarrow> 'a env_scheme" where
  "toast title description v e = e\<lparr>out := out e @ [Toast (js title) description v]\<rparr>"

text \<open>The \<^verbatim>\<open>catch\<close> blocks: \<^verbatim>\<open>console.error\<close>, then a destructive toast titled "Error".\<close>

definition catch_error :: "string \<Rightarrow> string \<Rightarrow> 'a env_scheme \<Rightarrow> 'a env_scheme" where
  "catch_error logged shown e =
     toast ''Error'' (js shown) Destructive (e\<lparr>out := out e @ [ConsoleError (js logged)]\<rparr>)"

definition issue :: "db_call \<Rightarrow> 'a env_scheme \<Rightarrow> 'a env_scheme" where
  "issue c e = e\<lparr>calls := calls e @ [c]\<rparr>"

definition blink_rooms_create :: "bool \<Rightarrow> room \<Rightarrow> 'a env_scheme \<Rightarrow> 'a env_scheme" where
  "blink_rooms_create ok r e =
     (let e1 = issue (CreateRoom r) e
      in if ok then e1\<lparr>db := (db e1)\<lparr>db_rooms := db_rooms (db e1) @ [r]\<rparr>\<rparr> else e1)"

text \<open>What a successful \<^verbatim>\<open>rooms.update\<close> does to the store.\<close>

definition store_room_update :: "jsstring \<Rightarrow> status \<Rightarrow> nat \<Rightarrow> 'a env_scheme \<Rightarrow> 'a env_scheme" where
  "store_room_update rid s i e =
     e\<lparr>db := (db e)\<lparr>db_rooms :=
         map (\<lambda>r. if r_id r = rid then r\<lparr>r_status := s, r_currentQuestionIndex := i\<rparr> else r)
           (db_rooms (db e))\<rparr>\<rparr>"

definition blink_rooms_update :: "bool \<Rightarrow> jsstring \<Rightarrow> status \<Rightarrow> nat \<Rightarrow> 'a env_scheme \<Rightarrow> 'a env_scheme" where
  "blink_rooms_update ok rid s i e =
     (let e1 = issue (UpdateRoom rid s i) e
      in if ok then store_room_update rid s i e1 else e1)"

definition blink_players_create :: "bool \<Rightarrow> player \<Rightarrow> 'a env_scheme \<Rightarrow> 'a env_scheme" where
  "blink_players_create ok p e =
     (let e1 = issue (CreatePlayer p) e
      in if ok then e1\<lparr>db := (db e1)\<lparr>db_players := db_players (db e1) @ [p]\<rparr>\<rparr> else e1)"

definition blink_players_update :: "bool \<Rightarrow> jsstring \<Rightarrow> int \<Rightarrow> 'a env_scheme \<Rightarrow> 'a env_scheme" where
  "blink_players_update ok pid sc e =
     (let e1 = issue (UpdatePlayer pid sc) e
      in if ok
         then e1\<lparr>db := (db e1)\<lparr>db_players :=
                map (\<lambda>p. if p_id p = pid then p\<lparr>p_score := sc\<rparr> else p) (db_players (db e1))\<rparr>\<rparr>
         else e1)"

definition blink_gameAnswers_create :: "bool \<Rightarrow> gameAnswer \<Rightarrow> 'a env_scheme \<Rightarrow> 'a env_scheme" where
  "blink_gameAnswers_create ok a e =
     (let e1 = issue (CreateAnswer a) e
      in if ok then e1\<lparr>db := (db e1)\<lparr>db_gameAnswers := db_gameAnswers (db e1) @ [a]\<rparr>\<rparr> else e1)"

section \<open>Sorting the leaderboard\<close>

text \<open>
  \<^verbatim>\<open>Array.prototype.sort\<close> with a comparator is a stable sort: \<open>a\<close> is placed before \<open>b\<close>
  when \<open>cmp a b\<close> is negative, and elements that compare equal keep their order. For a
  consistent comparator the result does not depend on the algorithm; it is computed here
  by stable insertion.
\<close>

fun insert_by :: "('a \<Rightarrow> 'a \<Rightarrow> int) \<Rightarrow> 'a \<Rightarrow> 'a list \<Rightarrow> 'a list" where
  "insert_by cmp x [] = [x]"
| "insert_by cmp x (y # ys) = (if cmp x y \<le> 0 then x # y # ys else y # insert_by cmp x ys)"

definition js_sort :: "('a \<Rightarrow> 'a \<Rightarrow> int) \<Rightarrow> 'a list \<Rightarrow> 'a list" where
  "js_sort cmp xs = foldr (insert_by cmp) xs []"

text \<open>\<^verbatim>\<open>[...players].sort((a, b) => b.score - a.score)\<close> and \<^verbatim>\<open>sortedPlayers[0]\<close>.\<close>

definition by_score_desc :: "player \<Rightarrow> player \<Rightarrow> int" where
  "by_score_desc a b = p_score b - p_score a"

definition sortedPlayers :: "player list \<Rightarrow> player list" where
  "sortedPlayers ps = js_sort by_score_desc ps"

definition winner :: "player list \<Rightarrow> player option" where
  "winner ps = (case sortedPlayers ps of [] \<Rightarrow> None | p # _ \<Rightarrow> Some p)"

text \<open>\<^verbatim>\<open>winner?.displayName || 'Champion'\<close> and \<^verbatim>\<open>winner?.score || 0\<close>.\<close>

definition winnerName :: "player list \<Rightarrow> jsstring" where
  "winnerName ps =
     (case winner ps of
        None \<Rightarrow> js ''Champion''
      | Some p \<Rightarrow> (if p_displayName p = [] then js ''Champion'' else p_displayName p))"

definition winnerPoints :: "player list \<Rightarrow> int" where
  "winnerPoints ps = (case winner ps of None \<Rightarrow> 0 | Some p \<Rightarrow> p_score p)"

section \<open>The room view: component state\<close>

text \<open>
  The \<^verbatim>\<open>useState\<close> cells of \<^verbatim>\<open>TriviaRoom\<close>, together with the store, the emitted
  notifications and the timeouts that are scheduled and not yet fired. A scheduled
  \<^verbatim>\<open>nextQuestion\<close> is the closure of the render that scheduled it: it carries that
  render's \<^verbatim>\<open>questionIndex\<close> and \<^verbatim>\<open>questions\<close> (the dependencies of its \<^verbatim>\<open>useCallback\<close>).
  \<open>load_pending\<close> holds while the one \<^verbatim>\<open>loadGameData\<close> call of the mount is in flight:
  the effect that calls it depends on \<^verbatim>\<open>room.id\<close> and on the \<^verbatim>\<open>toast\<close> function of the
  toast hook, neither of which changes while the room is mounted, and nothing else calls
  \<^verbatim>\<open>setPlayers\<close> or \<^verbatim>\<open>setQuestions\<close>. \<open>starting\<close> counts the \<^verbatim>\<open>rooms.update\<close> requests of
  \<^verbatim>\<open>startGame\<close> that are awaited and not yet settled.
\<close>

datatype timer =
    ShowResultsTimer nat "question list"
  | NextQuestionTimer nat "question list"

record world = env +
  players :: "player list"
  questions :: "question list"
  currentQuestion :: "question option"
  gameStatus :: status
  timeLeft :: int
  selectedAnswer :: "jsstring option"
  hasAnswered :: bool
  showResults :: bool
  questionIndex :: nat
  answers :: "gameAnswer list"
  loading :: bool
  timers :: "timer list"
  load_pending :: bool
  starting :: nat

definition initial :: "database \<Rightarrow> world" where
  "initial d =
     \<lparr>db = d, out = [], calls = [],
      players = [], questions = [], currentQuestion = None, gameStatus = Waiting,
      timeLeft = 15, selectedAnswer = None, hasAnswered = False, showResults = False,
      questionIndex = 0, answers = [], loading = True, timers = [], load_pending = True,
      starting = 0\<rparr>"

subsection \<open>loadGameData\<close>

text \<open>
  \<^verbatim>\<open>players.list({where: {roomId}, orderBy: {score: 'desc'}, limit: 20})\<close> and
  \<^verbatim>\<open>questions.list({orderBy: {id: 'asc'}, limit: 10})\<close>.
\<close>

definition list_players :: "jsstring \<Rightarrow> database \<Rightarrow> player list" where
  "list_players rid d =
     take 20 (js_sort by_score_desc (filter (\<lambda>p. p_roomId p = rid) (db_players d)))"

definition list_questions :: "database \<Rightarrow> question list" where
  "list_questions d = take 10 (db_questions d)"

definition loadGameData :: "room \<Rightarrow> bool \<Rightarrow> bool \<Rightarrow> world \<Rightarrow> world" where
  "loadGameData rm okPlayers okQuestions w =
     (let w0 = issue (ListPlayers (r_id rm)) (w\<lparr>load_pending := False\<rparr>)
      in if okPlayers
         then (let playersData = list_players (r_id rm) (db w0);
                   w1 = issue ListQuestions (w0\<lparr>players := playersData\<rparr>)
               in if okQuestions
                  then (let questionsData = list_questions (db w1);
                            w2 = w1\<lparr>questions := questionsData\<rparr>;
                            w3 = (case questionsData of
                                    [] \<Rightarrow> w2
                                  | q # _ \<Rightarrow> w2\<lparr>currentQuestion := Some q\<rparr>)
                        in w3\<lparr>loading := False\<rparr>)
                  else catch_error ''Failed to load game data:'' ''Failed to load game data'' w1)
         else catch_error ''Failed to load game data:'' ''Failed to load game data'' w0)"

subsection \<open>nextQuestion\<close>

text \<open>The first two arguments are the \<^verbatim>\<open>questionIndex\<close> and \<^verbatim>\<open>questions\<close> of the closure.\<close>

definition nextQuestion :: "nat \<Rightarrow> question list \<Rightarrow> world \<Rightarrow> world" where
  "nextQuestion idx qs w =
     (let nextIndex = idx + 1
      in if nextIndex \<ge> length qs
         then w\<lparr>gameStatus := Finished\<rparr>
         else w\<lparr>questionIndex := nextIndex, currentQuestion := Some (qs ! nextIndex),
                selectedAnswer := None, hasAnswered := False, showResults := False,
                timeLeft := 15\<rparr>)"

subsection \<open>The timer effect\<close>

text \<open>
  The effect runs after every render in which one of \<^verbatim>\<open>gameStatus\<close>, \<^verbatim>\<open>timeLeft\<close>,
  \<^verbatim>\<open>hasAnswered\<close>, \<^verbatim>\<open>nextQuestion\<close> has changed. Its first branch arms a one-second timeout
  that is cleared when the effect runs again; its second branch shows the results and
  schedules \<^verbatim>\<open>nextQuestion\<close> three seconds later, a timeout that is never cleared.
\<close>

datatype branch = ArmTick | TimeIsUp | Idle

definition timerEffect :: "world \<Rightarrow> branch" where
  "timerEffect w =
     (if gameStatus w = Playing \<and> timeLeft w > 0 \<and> \<not> hasAnswered w then ArmTick
      else if timeLeft w = 0 \<and> \<not> hasAnswered w then TimeIsUp
      else Idle)"

definition tick :: "world \<Rightarrow> world" where
  "tick w = w\<lparr>timeLeft := timeLeft w - 1\<rparr>"

definition timeUp :: "world \<Rightarrow> world" where
  "timeUp w =
     w\<lparr>showResults := True,
       timers := timers w @ [NextQuestionTimer (questionIndex w) (questions w)]\<rparr>"

text \<open>The \<open>k\<close>-th scheduled timeout fires.\<close>

definition fire :: "nat \<Rightarrow> world \<Rightarrow> world" where
  "fire k w =
     (if k < length (timers w)
      then (let others = take k (timers w) @ drop (Suc k) (timers w)
            in case timers w ! k of
                 ShowResultsTimer i qs \<Rightarrow>
                   w\<lparr>showResults := True, timers := others @ [NextQuestionTimer i qs]\<rparr>
               | NextQuestionTimer i qs \<Rightarrow> nextQuestion i qs (w\<lparr>timers := others\<rparr>))
      else w)"

subsection \<open>startGame\<close>

text \<open>
  \<^verbatim>\<open>startGame\<close> is asynchronous. The click issues \<^verbatim>\<open>rooms.update\<close> and the handler waits;
  the Start button carries no \<^verbatim>\<open>disabled\<close> flag, so it can be clicked again meanwhile. When
  the request settles, the rest of the handler runs, whatever the state has become by
  then: on success the three setters and the toast, on failure the \<^verbatim>\<open>catch\<close> block.
  \<open>startGame\<close> is the handler with nothing happening in between.
\<close>

definition startGame_call :: "room \<Rightarrow> world \<Rightarrow> world" where
  "startGame_call rm w =
     (issue (UpdateRoom (r_id rm) Playing 0) w)\<lparr>starting := Suc (starting w)\<rparr>"

definition startGame_resume :: "room \<Rightarrow> bool \<Rightarrow> world \<Rightarrow> world" where
  "startGame_resume rm ok w =
     (let w1 = w\<lparr>starting := starting w - 1\<rparr>
      in if ok
         then toast ''Game Started!'' (js ''Good luck everyone!'') Default
                ((store_room_update (r_id rm) Playing 0 w1)
                   \<lparr>gameStatus := Playing, timeLeft := 15, questionIndex := 0\<rparr>)
         else catch_error ''Failed to start game:'' ''Failed to start game'' w1)"

definition startGame :: "room \<Rightarrow> bool \<Rightarrow> world \<Rightarrow> world" where
  "startGame rm ok w = startGame_resume rm ok (startGame_call rm w)"

subsection \<open>submitAnswer\<close>

text \<open>
  \<open>answerId\<close> and \<open>now\<close> are the generated id and the timestamp of the new record;
  \<open>okCreate\<close> and \<open>okUpdate\<close> are the outcomes of the two awaited calls.
\<close>

definition schedule_results :: "world \<Rightarrow> world" where
  "schedule_results w =
     w\<lparr>timers := timers w @ [ShowResultsTimer (questionIndex w) (questions w)]\<rparr>"

definition submitAnswer ::
  "user \<Rightarrow> room \<Rightarrow> jsstring \<Rightarrow> jsstring \<Rightarrow> jsstring \<Rightarrow> bool \<Rightarrow> bool \<Rightarrow> world \<Rightarrow> world" where
  "submitAnswer usr rm answer answerId now okCreate okUpdate w =
     (case currentQuestion w of
        None \<Rightarrow> w
      | Some q \<Rightarrow>
          if hasAnswered w then w
          else (let w1 = w\<lparr>selectedAnswer := Some answer, hasAnswered := True\<rparr>;
                    isCorrect = (answer = q_correctAnswer q);
                    w2 = blink_gameAnswers_create okCreate
                           \<lparr>a_id = answerId, a_roomId = r_id rm, a_questionId = q_id q,
                            a_userId = u_id usr, a_selectedAnswer = answer,
                            a_isCorrect = isCorrect, a_answeredAt = now\<rparr> w1
                in if okCreate
                   then (if isCorrect
                         then (case find (\<lambda>p. p_userId p = u_id usr) (players w2) of
                                 None \<Rightarrow> schedule_results w2
                               | Some currentPlayer \<Rightarrow>
                                   (let w3 = blink_players_update okUpdate (p_id currentPlayer)
                                               (p_score currentPlayer + 100) w2
                                    in if okUpdate then schedule_results w3
                                       else catch_error ''Failed to submit answer:''
                                              ''Failed to submit answer'' w3))
                         else schedule_results w2)
                   else catch_error ''Failed to submit answer:'' ''Failed to submit answer'' w2))"

subsection \<open>sendReaction\<close>

definition sendReaction :: "user \<Rightarrow> room \<Rightarrow> jsstring \<Rightarrow> bool \<Rightarrow> world \<Rightarrow> world" where
  "sendReaction usr rm emoji ok w =
     (let nm = (case find (\<lambda>p. p_userId p = u_id usr) (players w) of
                  None \<Rightarrow> js ''Player''
                | Some p \<Rightarrow> (if p_displayName p = [] then js ''Player'' else p_displayName p));
          w1 = issue (Publish (js ''trivia-'' @ r_id rm) emoji (u_id usr) nm) w
      in if ok then w1 else w1\<lparr>out := out w1 @ [ConsoleError (js ''Failed to send reaction:'')]\<rparr>)"

subsection \<open>What the component renders\<close>

text \<open>
  A control is a button with the handler it invokes and its \<^verbatim>\<open>disabled\<close> flag. The
  loading screen has none; the finished screen has the leaderboard, the winner and the
  Back button; the room screen has the Leave button, then either the waiting card (with
  the Start button under \<^verbatim>\<open>isHost &&\<close>) or the four answer buttons (under
  \<^verbatim>\<open>currentQuestion &&\<close>, \<^verbatim>\<open>disabled={hasAnswered}\<close>) and the four reaction buttons.
\<close>

datatype action =
    LeaveRoom
  | StartGame
  | SubmitAnswer jsstring
  | SendReaction jsstring

definition isHost :: "user \<Rightarrow> room \<Rightarrow> bool" where
  "isHost usr rm = (r_hostUserId rm = u_id usr)"

definition emojis :: "jsstring list" where
  "emojis = [[63743, 252, 242, 196], [8218, 249, 167, 212, 8719, 232],
             [63743, 252, 235, 231], [8218, 246, 176]]"

definition room_controls :: "user \<Rightarrow> room \<Rightarrow> world \<Rightarrow> (action \<times> bool) list" where
  "room_controls usr rm w =
     (LeaveRoom, False) #
     (if gameStatus w = Waiting
      then (if isHost usr rm then [(StartGame, False)] else [])
      else (case currentQuestion w of
              None \<Rightarrow> []
            | Some q \<Rightarrow> map (\<lambda>k. (SubmitAnswer k, hasAnswered w))
                         [js ''A'', js ''B'', js ''C'', js ''D''])
           @ map (\<lambda>e. (SendReaction e, False)) emojis)"

datatype screen =
    LoadingScreen
  | GameComplete "player list" "player option" "(action \<times> bool) list"
  | RoomScreen "(action \<times> bool) list" "player list"

definition render :: "user \<Rightarrow> room \<Rightarrow> world \<Rightarrow> screen" where
  "render usr rm w =
     (if loading w then LoadingScreen
      else if gameStatus w = Finished
      then GameComplete (sortedPlayers (players w)) (winner (players w)) [(LeaveRoom, False)]
      else RoomScreen (room_controls usr rm w) (sortedPlayers (players w)))"

fun controls :: "screen \<Rightarrow> (action \<times> bool) list" where
  "controls LoadingScreen = []"
| "controls (GameComplete board win cs) = cs"
| "controls (RoomScreen cs board) = cs"

text \<open>The actions a user can invoke: the handlers of the buttons that are not disabled.\<close>

definition offered :: "user \<Rightarrow> room \<Rightarrow> world \<Rightarrow> action list" where
  "offered usr rm w = map fst (filter (\<lambda>c. \<not> snd c) (controls (render usr rm w)))"

subsection \<open>Events of a mounted room view\<close>

text \<open>
  An event is the resolution of the mount's load, a click on an offered button, a
  \<^verbatim>\<open>startGame\<close> request settling, the one-second timeout of the timer effect, the second
  branch of the timer effect, a scheduled timeout firing, or a write to the store by
  another client. A click on Start only issues the request; the rest of \<^verbatim>\<open>startGame\<close>
  runs as an event of its own, at any later moment. The other handlers run to completion
  before the next event.
\<close>

datatype event =
    Loaded bool bool
  | ClickStart
  | StartResolved bool
  | ClickAnswer jsstring jsstring jsstring bool bool
  | ClickReaction jsstring bool
  | TickE
  | TimeUpE
  | FireE nat
  | Remote database

fun enabled :: "user \<Rightarrow> room \<Rightarrow> event \<Rightarrow> world \<Rightarrow> bool" where
  "enabled usr rm (Loaded okP okQ) w = load_pending w"
| "enabled usr rm ClickStart w = (StartGame \<in> set (offered usr rm w))"
| "enabled usr rm (StartResolved ok) w = (0 < starting w)"
| "enabled usr rm (ClickAnswer k aid now okC okU) w = (SubmitAnswer k \<in> set (offered usr rm w))"
| "enabled usr rm (ClickReaction e ok) w = (SendReaction e \<in> set (offered usr rm w))"
| "enabled usr rm TickE w = (timerEffect w = ArmTick)"
| "enabled usr rm TimeUpE w = (timerEffect w = TimeIsUp)"
| "enabled usr rm (FireE k) w = (k < length (timers w))"
| "enabled usr rm (Remote d) w = True"

fun step :: "user \<Rightarrow> room \<Rightarrow> event \<Rightarrow> world \<Rightarrow> world" where
  "step usr rm (Loaded okP okQ) w = loadGameData rm okP okQ w"
| "step usr rm ClickStart w = startGame_call rm w"
| "step usr rm (StartResolved ok) w = startGame_resume rm ok w"
| "step usr rm (ClickAnswer k aid now okC okU) w = submitAnswer usr rm k aid now okC okU w"
| "step usr rm (ClickReaction e ok) w = sendReaction usr rm e ok w"
| "step usr rm TickE w = tick w"
| "step usr rm TimeUpE w = timeUp w"
| "step usr rm (FireE k) w = fire k w"
| "step usr rm (Remote d) w = w\<lparr>db := d\<rparr>"

text \<open>Running a sequence of events; \<open>None\<close> when one of them is not enabled.\<close>

fun run :: "user \<Rightarrow> room \<Rightarrow> event list \<Rightarrow> world \<Rightarrow> world option" where
  "run usr rm [] w = Some w"
| "run usr rm (e # es) w = (if enabled usr rm e w then run usr rm es (step usr rm e w) else None)"

section \<open>The lobby\<close>

text \<open>
  The \<^verbatim>\<open>useState\<close> cells of \<^verbatim>\<open>GameLobby\<close>; \<open>entered\<close> is the room handed to
  \<^verbatim>\<open>onJoinRoom\<close>.
\<close>

record lobby = env +
  rooms :: "room list"
  lobby_loading :: bool
  creating :: bool
  joining :: "jsstring option"
  newRoomName :: jsstring
  showCreateForm :: bool
  entered :: "room option"

subsection \<open>createRoom\<close>

definition createRoom ::
  "user \<Rightarrow> jsstring \<Rightarrow> jsstring \<Rightarrow> jsstring \<Rightarrow> bool \<Rightarrow> bool \<Rightarrow> lobby \<Rightarrow> lobby" where
  "createRoom usr roomId playerId createdAt okRoom okPlayer l =
     (if trim (newRoomName l) = []
      then toast ''Error'' (js ''Please enter a room name'') Destructive l
      else (let l1 = l\<lparr>creating := True\<rparr>;
                rm = \<lparr>r_id = roomId, r_name = trim (newRoomName l), r_hostUserId = u_id usr,
                      r_status = Waiting, r_currentQuestionIndex = 0, r_createdAt = createdAt\<rparr>;
                l2 = blink_rooms_create okRoom rm l1;
                l3 = (if okRoom
                      then (let l4 = blink_players_create okPlayer
                                       \<lparr>p_id = playerId, p_roomId = roomId, p_userId = u_id usr,
                                        p_displayName = displayNameOf usr, p_score = 0\<rparr> l2
                            in if okPlayer
                               then (toast ''Success!''
                                       (js ''Room '' @ [34] @ newRoomName l @ [34]
                                          @ js '' created successfully!'') Default l4)
                                    \<lparr>entered := Some rm\<rparr>
                               else catch_error ''Failed to create room:'' ''Failed to create room'' l4)
                      else catch_error ''Failed to create room:'' ''Failed to create room'' l2)
            in l3\<lparr>creating := False, newRoomName := [], showCreateForm := False\<rparr>))"

subsection \<open>joinRoom\<close>

text \<open>
  \<^verbatim>\<open>players.list({where: {AND: [{roomId}, {userId}]}, limit: 1})\<close>.
\<close>

definition find_player :: "jsstring \<Rightarrow> jsstring \<Rightarrow> database \<Rightarrow> player list" where
  "find_player rid uid d =
     take 1 (filter (\<lambda>p. p_roomId p = rid \<and> p_userId p = uid) (db_players d))"

definition joined :: "room \<Rightarrow> lobby \<Rightarrow> lobby" where
  "joined rm l =
     (toast ''Joined!'' (js ''Welcome to '' @ [34] @ r_name rm @ [34]) Default l)
     \<lparr>entered := Some rm\<rparr>"

definition joinRoom :: "user \<Rightarrow> room \<Rightarrow> jsstring \<Rightarrow> bool \<Rightarrow> bool \<Rightarrow> lobby \<Rightarrow> lobby" where
  "joinRoom usr rm playerId okList okCreate l =
     (let l1 = issue (FindPlayer (r_id rm) (u_id usr)) (l\<lparr>joining := Some (r_id rm)\<rparr>);
          l2 = (if okList
                then (let existingPlayer = find_player (r_id rm) (u_id usr) (db l1)
                      in if length existingPlayer = 0
                         then (let l3 = blink_players_create okCreate
                                          \<lparr>p_id = playerId, p_roomId = r_id rm,
                                           p_userId = u_id usr,
                                           p_displayName = displayNameOf usr, p_score = 0\<rparr> l1
                               in if okCreate then joined rm l3
                                  else catch_error ''Failed to join room:'' ''Failed to join room'' l3)
                         else joined rm l1)
                else catch_error ''Failed to join room:'' ''Failed to join room'' l1)
      in l2\<lparr>joining := None\<rparr>)"

section \<open>Auxiliary definitions for the proofs\<close>

text \<open>The \<^verbatim>\<open>questions\<close> array that a scheduled timeout has captured.\<close>

fun timer_questions :: "timer \<Rightarrow> question list" where
  "timer_questions (ShowResultsTimer i qs) = qs"
| "timer_questions (NextQuestionTimer i qs) = qs"

text \<open>
  What holds of the room view after any sequence of events: the load is over once the
  loading flag is down; while loading, and while waiting, the countdown is untouched and
  no timeout is scheduled; while loading no \<^verbatim>\<open>startGame\<close> request is awaited; the countdown
  stays within 0 and 15; every scheduled timeout has captured the loaded questions.
\<close>

definition room_inv :: "world \<Rightarrow> bool" where
  "room_inv w =
     ((load_pending w \<longrightarrow> loading w) \<and>
      (loading w \<longrightarrow> gameStatus w = Waiting \<and> starting w = 0) \<and>
      (gameStatus w = Waiting \<longrightarrow> timeLeft w = 15 \<and> timers w = []) \<and>
      0 \<le> timeLeft w \<and> timeLeft w \<le> 15 \<and>
      (\<forall>t \<in> set (timers w). timer_questions t = questions w))"

subsection \<open>A concrete room\<close>

text \<open>
  A room hosted by Alice with two questions, whose correct answers are A and B; Bob is
  another signed-in user.
\<close>

definition alice :: user where
  "alice = \<lparr>u_id = js ''u1'', u_email = js ''alice@example.org'', u_displayName = None\<rparr>"

definition bob :: user where
  "bob = \<lparr>u_id = js ''u2'', u_email = js ''bob@example.org'', u_displayName = Some (js ''Bob'')\<rparr>"

definition quiz :: room where
  "quiz = \<lparr>r_id = js ''r1'', r_name = js ''Quiz'', r_hostUserId = js ''u1'', r_status = Waiting,
           r_currentQuestionIndex = 0, r_createdAt = js ''t0''\<rparr>"

definition mk_question :: "string \<Rightarrow> string \<Rightarrow> question" where
  "mk_question i c =
     \<lparr>q_id = js i, q_question = js ''?'', q_optionA = js ''a'', q_optionB = js ''b'',
      q_optionC = js ''c'', q_optionD = js ''d'', q_correctAnswer = js c,
      q_category = js ''general'', q_difficulty = Easy\<rparr>"

definition alice_player :: player where
  "alice_player = \<lparr>p_id = js ''p1'', p_roomId = js ''r1'', p_userId = js ''u1'',
                    p_displayName = js ''alice'', p_score = 0\<rparr>"

definition store :: database where
  "store = \<lparr>db_rooms = [quiz], db_players = [alice_player],
            db_questions = [mk_question ''q1'' ''A'', mk_question ''q2'' ''B''],
            db_gameAnswers = []\<rparr>"

definition loaded_world :: world where
  "loaded_world = loadGameData quiz True True (initial store)"

definition finished_world :: world where
  "finished_world =
     (initial store)\<lparr>loading := False, gameStatus := Finished,
        players := [alice_player\<lparr>p_score := 100\<rparr>,
                    \<lparr>p_id = js ''p2'', p_roomId = js ''r1'', p_userId = js ''u2'',
                     p_displayName = js ''Bob'', p_score = 300\<rparr>]\<rparr>"

definition lobby0 :: "jsstring \<Rightarrow> lobby" where
  "lobby0 nm = \<lparr>db = store, out = [], calls = [], rooms = [quiz], lobby_loading = False,
                creating = False, joining = None, newRoomName = nm, showCreateForm = True,
                entered = None\<rparr>"

text \<open>
  Alice starts the game and answers the first question correctly (A); one second later
  the results show, three seconds later the second question comes up.
\<close>

definition first_answer_trace :: "event list" where
  "first_answer_trace =
     [Loaded True True, ClickStart, StartResolved True,
      ClickAnswer (js ''A'') (js ''a1'') (js ''t1'') True True, FireE 0, FireE 0]"

text \<open>
  Alice starts the game and lets the fifteen seconds of the first question run out. In
  the three seconds before the scheduled \<^verbatim>\<open>nextQuestion\<close> she clicks answer A: now two
  \<^verbatim>\<open>nextQuestion\<close> timeouts of the first question's render are scheduled. The first one
  fires and brings up the second question, which she answers (B); the results timeout of
  that answer fires.
\<close>

definition late_answer_trace :: "event list" where
  "late_answer_trace =
     [Loaded True True, ClickStart, StartResolved True,
      TickE, TickE, TickE, TickE, TickE, TickE, TickE, TickE, TickE, TickE, TickE, TickE,
      TickE, TickE, TickE, TimeUpE,
      ClickAnswer (js ''A'') (js ''a1'') (js ''t1'') True True, FireE 0, FireE 0,
      ClickAnswer (js ''B'') (js ''a2'') (js ''t2'') True True, FireE 1]"

text \<open>
  Alice clicks Start twice before the first request settles. The first request settles
  and the game starts; she answers both questions at once, and the game finishes four
  seconds after her second answer. The second request is still awaited.
\<close>

definition double_start_trace :: "event list" where
  "double_start_trace =
     [Loaded True True, ClickStart, ClickStart, StartResolved True,
      ClickAnswer (js ''A'') (js ''a1'') (js ''t1'') True True, FireE 0, FireE 0,
      ClickAnswer (js ''B'') (js ''a2'') (js ''t2'') True True, FireE 0, FireE 0]"

text \<open>The status, the question index, the countdown and the awaited start requests.\<close>

definition progress :: "world option \<Rightarrow> (status \<times> nat \<times> int \<times> nat) option" where
  "progress r = map_option (\<lambda>w. (gameStatus w, questionIndex w, timeLeft w, starting w)) r"

text \<open>The stored scores, the scores in the component's player list, the stored verdicts.\<close>

definition scores :: "world option \<Rightarrow> (int list \<times> int list \<times> bool list) option" where
  "scores r =
     map_option (\<lambda>w. (map p_score (db_players (db w)), map p_score (players w),
                      map a_isCorrect (db_gameAnswers (db w)))) r"

text \<open>The question index, the answered flag and the questions of the stored answers.\<close>

definition answered :: "world option \<Rightarrow> (nat \<times> bool \<times> jsstring list) option" where
  "answered r =
     map_option (\<lambda>w. (questionIndex w, hasAnswered w,
                      map a_questionId (db_gameAnswers (db w)))) r"

lemmas handler_defs =
  loadGameData_def startGame_def startGame_call_def startGame_resume_def store_room_update_def
  submitAnswer_def sendReaction_def tick_def timeUp_def fire_def
  nextQuestion_def schedule_results_def timerEffect_def
  blink_rooms_update_def blink_players_update_def blink_gameAnswers_create_def
  blink_rooms_create_def blink_players_create_def
  issue_def catch_error_def toast_def list_players_def list_questions_def
  js_sort_def by_score_desc_def
  offered_def render_def room_controls_def isHost_def emojis_def sortedPlayers_def winner_def

lemmas example_defs =
  alice_def bob_def quiz_def mk_question_def alice_player_def store_def initial_def js_def
  loaded_world_def finished_world_def lobby0_def

section \<open>Lemmas\<close>

subsection \<open>The leaderboard sort\<close>

lemma mset_insert_by: "mset (insert_by cmp x xs) = add_mset x (mset xs)"
  by (induction xs) auto

lemma mset_js_sort: "mset (js_sort cmp xs) = mset xs"
  unfolding js_sort_def by (induction xs) (auto simp: mset_insert_by)

lemma set_insert_by: "set (insert_by cmp x xs) = insert x (set xs)"
  by (induction xs) auto

lemma sorted_insert_by_score:
  "sorted_wrt (\<lambda>a b. p_score b \<le> p_score a) xs \<Longrightarrow>
   sorted_wrt (\<lambda>a b. p_score b \<le> p_score a) (insert_by by_score_desc x xs)"
  by (induction xs) (auto simp: set_insert_by by_score_desc_def)

lemma sorted_sortedPlayers: "sorted_wrt (\<lambda>a b. p_score b \<le> p_score a) (sortedPlayers ps)"
  unfolding sortedPlayers_def js_sort_def
  by (induction ps) (auto intro: sorted_insert_by_score)

lemma mset_sortedPlayers: "mset (sortedPlayers ps) = mset ps"
  by (simp add: sortedPlayers_def mset_js_sort)

lemma set_sortedPlayers: "set (sortedPlayers ps) = set ps"
  by (metis mset_sortedPlayers set_mset_mset)

lemma winner_maximal:
  assumes "ps \<noteq> []"
  shows "\<exists>p. winner ps = Some p \<and> p \<in> set ps \<and> (\<forall>q \<in> set ps. p_score q \<le> p_score p)"
proof -
  from assms have "sortedPlayers ps \<noteq> []"
    by (metis mset_sortedPlayers mset_zero_iff)
  then obtain p rest where sp: "sortedPlayers ps = p # rest"
    by (cases "sortedPlayers ps") auto
  have "sorted_wrt (\<lambda>a b. p_score b \<le> p_score a) (p # rest)"
    using sorted_sortedPlayers [of ps] sp by simp
  then have "\<forall>q \<in> set (p # rest). p_score q \<le> p_score p"
    by auto
  moreover have "set (p # rest) = set ps"
    using set_sortedPlayers [of ps] sp by simp
  ultimately show ?thesis
    unfolding winner_def sp by auto
qed

lemma insert_by_sorted_id:
  "sorted_wrt (\<lambda>a b. p_score b \<le> p_score a) (x # xs) \<Longrightarrow> insert_by by_score_desc x xs = x # xs"
  by (cases xs) (auto simp: by_score_desc_def)

lemma sortedPlayers_sorted_id:
  "sorted_wrt (\<lambda>a b. p_score b \<le> p_score a) ps \<Longrightarrow> sortedPlayers ps = ps"
  unfolding sortedPlayers_def js_sort_def
  by (induction ps) (auto simp: insert_by_sorted_id simp del: insert_by.simps)

text \<open>
  The sidebar of the room screen sorts the \<^verbatim>\<open>players\<close> array in place. The array is the
  result of the load, which the store returns in descending score order, and the stable
  sort leaves such a list as it is: rendering does not change the state.
\<close>

lemma list_players_sorted:
  "sorted_wrt (\<lambda>a b. p_score b \<le> p_score a) (list_players rid d)"
  unfolding list_players_def
  using sorted_sortedPlayers [of "filter (\<lambda>p. p_roomId p = rid) (db_players d)"]
  by (simp add: sortedPlayers_def sorted_wrt_take)

lemma sidebar_sort_keeps_players: "sortedPlayers (list_players rid d) = list_players rid d"
  by (rule sortedPlayers_sorted_id) (rule list_players_sorted)

subsection \<open>Offered actions and the invariant of the room view\<close>

lemma room_inv_initial: "room_inv (initial d)"
  by (simp add: room_inv_def initial_def)

lemma offered_iff: "(a \<in> set (offered usr rm w)) = ((a, False) \<in> set (controls (render usr rm w)))"
  unfolding offered_def by force

lemma offered_StartGame:
  "(StartGame \<in> set (offered usr rm w)) = (\<not> loading w \<and> gameStatus w = Waiting \<and> isHost usr rm)"
  unfolding offered_iff
  by (auto simp: render_def room_controls_def split: option.splits)

lemma offered_SubmitAnswer:
  "(SubmitAnswer k \<in> set (offered usr rm w)) =
   (\<not> loading w \<and> gameStatus w = Playing \<and> currentQuestion w \<noteq> None \<and> \<not> hasAnswered w
      \<and> k \<in> {js ''A'', js ''B'', js ''C'', js ''D''})"
  unfolding offered_iff
  by (cases "gameStatus w"; cases "currentQuestion w") (auto simp: render_def room_controls_def)

lemma offered_SendReaction:
  "(SendReaction e \<in> set (offered usr rm w)) =
   (\<not> loading w \<and> gameStatus w = Playing \<and> e \<in> set emojis)"
  unfolding offered_iff
  by (cases "gameStatus w") (auto simp: render_def room_controls_def split: option.splits)

lemma room_inv_loadGameData:
  "room_inv w \<Longrightarrow> load_pending w \<Longrightarrow> room_inv (loadGameData rm okP okQ w)"
  by (auto simp: room_inv_def loadGameData_def issue_def catch_error_def toast_def Let_def split: list.splits)

lemma room_inv_startGame_call:
  "room_inv w \<Longrightarrow> \<not> loading w \<Longrightarrow> room_inv (startGame_call rm w)"
  by (auto simp: room_inv_def startGame_call_def issue_def)

lemma room_inv_startGame_resume:
  "room_inv w \<Longrightarrow> 0 < starting w \<Longrightarrow> room_inv (startGame_resume rm ok w)"
  by (auto simp: room_inv_def startGame_resume_def store_room_update_def catch_error_def
        toast_def Let_def)

lemma submitAnswer_local:
  "gameStatus (submitAnswer usr rm k aid now okC okU w) = gameStatus w
   \<and> timeLeft (submitAnswer usr rm k aid now okC okU w) = timeLeft w
   \<and> loading (submitAnswer usr rm k aid now okC okU w) = loading w
   \<and> load_pending (submitAnswer usr rm k aid now okC okU w) = load_pending w
   \<and> questions (submitAnswer usr rm k aid now okC okU w) = questions w
   \<and> questionIndex (submitAnswer usr rm k aid now okC okU w) = questionIndex w
   \<and> (timers (submitAnswer usr rm k aid now okC okU w) = timers w
       \<or> timers (submitAnswer usr rm k aid now okC okU w)
            = timers w @ [ShowResultsTimer (questionIndex w) (questions w)])"
  by (simp add: submitAnswer_def blink_gameAnswers_create_def blink_players_update_def
        schedule_results_def issue_def catch_error_def toast_def Let_def split: option.splits)

lemma room_inv_submitAnswer:
  assumes "room_inv w" and "gameStatus w = Playing"
  shows "room_inv (submitAnswer usr rm k aid now okC okU w)"
  using assms submitAnswer_local [of usr rm k aid now okC okU w]
  unfolding room_inv_def by auto

lemma room_inv_sendReaction: "room_inv w \<Longrightarrow> room_inv (sendReaction usr rm e ok w)"
  by (auto simp: room_inv_def sendReaction_def issue_def Let_def)

lemma room_inv_tick: "room_inv w \<Longrightarrow> timerEffect w = ArmTick \<Longrightarrow> room_inv (tick w)"
  by (auto simp: room_inv_def tick_def timerEffect_def split: if_splits)

lemma room_inv_timeUp: "room_inv w \<Longrightarrow> timerEffect w = TimeIsUp \<Longrightarrow> room_inv (timeUp w)"
  by (auto simp: room_inv_def timeUp_def timerEffect_def split: if_splits)

lemma room_inv_nextQuestion:
  "room_inv w \<Longrightarrow> gameStatus w \<noteq> Waiting \<Longrightarrow> room_inv (nextQuestion i qs w)"
  by (auto simp: room_inv_def nextQuestion_def Let_def)

lemma others_subset: "set (take k xs @ drop (Suc k) xs) \<subseteq> set xs"
  using set_take_subset [of k xs] set_drop_subset [of "Suc k" xs] by auto

lemma room_inv_fire:
  assumes "room_inv w" and "k < length (timers w)"
  shows "room_inv (fire k w)"
proof -
  from assms have nw: "gameStatus w \<noteq> Waiting"
    by (auto simp: room_inv_def)
  have mem: "timers w ! k \<in> set (timers w)"
    using assms(2) by simp
  let ?others = "take k (timers w) @ drop (Suc k) (timers w)"
  have sub: "set ?others \<subseteq> set (timers w)"
    by (rule others_subset)
  have base: "room_inv (w\<lparr>timers := ?others\<rparr>)"
    using assms(1) nw sub unfolding room_inv_def by auto
  show ?thesis
  proof (cases "timers w ! k")
    case (ShowResultsTimer i qs)
    with mem assms(1) have "qs = questions w"
      by (force simp: room_inv_def)
    with ShowResultsTimer assms nw sub show ?thesis
      unfolding room_inv_def fire_def by (auto simp: Let_def)
  next
    case (NextQuestionTimer i qs)
    have "room_inv (nextQuestion i qs (w\<lparr>timers := ?others\<rparr>))"
      using base nw by (intro room_inv_nextQuestion) auto
    with NextQuestionTimer assms(2) show ?thesis
      by (simp add: fire_def Let_def)
  qed
qed

lemma room_inv_step:
  assumes "room_inv w" and "enabled usr rm e w"
  shows "room_inv (step usr rm e w)"
proof (cases e)
  case (Loaded okP okQ)
  with assms show ?thesis by (simp add: room_inv_loadGameData)
next
  case ClickStart
  with assms show ?thesis by (simp add: room_inv_startGame_call offered_StartGame)
next
  case (StartResolved ok)
  with assms show ?thesis by (simp add: room_inv_startGame_resume)
next
  case (ClickAnswer k aid now okC okU)
  with assms show ?thesis by (simp add: room_inv_submitAnswer offered_SubmitAnswer)
next
  case (ClickReaction em ok)
  with assms show ?thesis by (simp add: room_inv_sendReaction)
next
  case TickE
  with assms show ?thesis by (simp add: room_inv_tick)
next
  case TimeUpE
  with assms show ?thesis by (simp add: room_inv_timeUp)
next
  case (FireE k)
  with assms show ?thesis by (simp add: room_inv_fire)
next
  case (Remote d')
  with assms show ?thesis by (simp add: room_inv_def)
qed

lemma room_inv_run:
  "room_inv w \<Longrightarrow> run usr rm es w = Some w' \<Longrightarrow> room_inv w'"
proof (induction es arbitrary: w)
  case Nil
  then show ?case by simp
next
  case (Cons e es)
  from Cons.prems(2) have en: "enabled usr rm e w"
    and rest: "run usr rm es (step usr rm e w) = Some w'"
    by (simp_all split: if_splits)
  from Cons.prems(1) en have "room_inv (step usr rm e w)"
    by (rule room_inv_step)
  then show ?case using rest by (rule Cons.IH)
qed

subsection \<open>Status and countdown after each handler\<close>

lemma gameStatus_loadGameData: "gameStatus (loadGameData rm okP okQ w) = gameStatus w"
  by (simp add: loadGameData_def issue_def catch_error_def toast_def Let_def split: list.splits)

lemma timeLeft_loadGameData: "timeLeft (loadGameData rm okP okQ w) = timeLeft w"
  by (simp add: loadGameData_def issue_def catch_error_def toast_def Let_def split: list.splits)

lemma gameStatus_startGame_call: "gameStatus (startGame_call rm w) = gameStatus w"
  by (simp add: startGame_call_def issue_def)

lemma timeLeft_startGame_call: "timeLeft (startGame_call rm w) = timeLeft w"
  by (simp add: startGame_call_def issue_def)

lemma gameStatus_startGame_resume:
  "gameStatus (startGame_resume rm ok w) = (if ok then Playing else gameStatus w)"
  by (simp add: startGame_resume_def store_room_update_def catch_error_def toast_def Let_def)

lemma timeLeft_startGame_resume:
  "timeLeft (startGame_resume rm ok w) = (if ok then 15 else timeLeft w)"
  by (simp add: startGame_resume_def store_room_update_def catch_error_def toast_def Let_def)

lemma gameStatus_startGame:
  "gameStatus (startGame rm ok w) = (if ok then Playing else gameStatus w)"
  by (simp add: startGame_def gameStatus_startGame_resume gameStatus_startGame_call)

lemma timeLeft_startGame:
  "timeLeft (startGame rm ok w) = (if ok then 15 else timeLeft w)"
  by (simp add: startGame_def timeLeft_startGame_resume timeLeft_startGame_call)

lemma gameStatus_sendReaction: "gameStatus (sendReaction usr rm e ok w) = gameStatus w"
  by (simp add: sendReaction_def issue_def Let_def)

lemma timeLeft_sendReaction: "timeLeft (sendReaction usr rm e ok w) = timeLeft w"
  by (simp add: sendReaction_def issue_def Let_def)

lemma gameStatus_nextQuestion:
  "gameStatus (nextQuestion i qs w) = (if length qs \<le> i + 1 then Finished else gameStatus w)"
  by (simp add: nextQuestion_def Let_def)

lemma timeLeft_nextQuestion:
  "timeLeft (nextQuestion i qs w) = (if length qs \<le> i + 1 then timeLeft w else 15)"
  by (simp add: nextQuestion_def Let_def)

lemma gameStatus_fire:
  "gameStatus (fire k w) =
     (if k < length (timers w)
      then (case timers w ! k of
              ShowResultsTimer i qs \<Rightarrow> gameStatus w
            | NextQuestionTimer i qs \<Rightarrow> (if length qs \<le> i + 1 then Finished else gameStatus w))
      else gameStatus w)"
  by (simp add: fire_def Let_def gameStatus_nextQuestion split: timer.splits)

lemma timeLeft_fire:
  "timeLeft (fire k w) =
     (if k < length (timers w)
      then (case timers w ! k of
              ShowResultsTimer i qs \<Rightarrow> timeLeft w
            | NextQuestionTimer i qs \<Rightarrow> (if length qs \<le> i + 1 then timeLeft w else 15))
      else timeLeft w)"
  by (simp add: fire_def Let_def timeLeft_nextQuestion split: timer.splits)

text \<open>
  How an enabled event can move the status. A settling \<^verbatim>\<open>startGame\<close> request sets
  \<open>Playing\<close> from any status; every other event keeps the status, except that a scheduled
  \<^verbatim>\<open>nextQuestion\<close> whose advanced index reaches the number of loaded questions sets
  \<open>Finished\<close>, which happens only after the game has started.
\<close>

lemma status_moves:
  assumes inv: "room_inv w" and en: "enabled usr rm e w"
  shows "(case (gameStatus w, gameStatus (step usr rm e w)) of
            (Waiting, Waiting) \<Rightarrow> True
          | (Waiting, Playing) \<Rightarrow> e = StartResolved True
          | (Playing, Playing) \<Rightarrow> True
          | (Playing, Finished) \<Rightarrow>
              (\<exists>k i. e = FireE k \<and> timers w ! k = NextQuestionTimer i (questions w)
                 \<and> length (questions w) \<le> i + 1)
          | (Finished, Finished) \<Rightarrow> True
          | (Finished, Playing) \<Rightarrow> e = StartResolved True
          | _ \<Rightarrow> False)"
proof (cases e)
  case (Loaded okP okQ)
  then show ?thesis
    by (cases "gameStatus w") (simp_all add: gameStatus_loadGameData)
next
  case ClickStart
  then show ?thesis
    by (cases "gameStatus w") (simp_all add: gameStatus_startGame_call)
next
  case (StartResolved ok)
  then show ?thesis
    by (cases "gameStatus w"; cases ok) (simp_all add: gameStatus_startGame_resume)
next
  case (ClickAnswer k aid now okC okU)
  then show ?thesis
    using submitAnswer_local [of usr rm k aid now okC okU w]
    by (cases "gameStatus w") simp_all
next
  case (ClickReaction em ok)
  then show ?thesis
    by (cases "gameStatus w") (simp_all add: gameStatus_sendReaction)
next
  case TickE
  then show ?thesis
    by (cases "gameStatus w") (simp_all add: tick_def)
next
  case TimeUpE
  then show ?thesis
    by (cases "gameStatus w") (simp_all add: timeUp_def)
next
  case (FireE k)
  with en have k: "k < length (timers w)" by simp
  with inv have nw: "gameStatus w \<noteq> Waiting"
    by (auto simp: room_inv_def)
  have mem: "timers w ! k \<in> set (timers w)"
    using k by simp
  show ?thesis
  proof (cases "timers w ! k")
    case (ShowResultsTimer i qs)
    with FireE k nw show ?thesis
      by (cases "gameStatus w") (simp_all add: gameStatus_fire)
  next
    case (NextQuestionTimer i qs)
    with mem inv have "qs = questions w"
      by (force simp: room_inv_def)
    with NextQuestionTimer FireE k nw show ?thesis
      by (cases "gameStatus w") (simp_all add: gameStatus_fire)
  qed
next
  case (Remote d')
  then show ?thesis
    by (cases "gameStatus w") simp_all
qed

lemma timeLeft_step:
  assumes inv: "room_inv w" and en: "enabled usr rm e w"
  shows "timeLeft (step usr rm e w) = timeLeft w \<or> timeLeft (step usr rm e w) = 15
         \<or> (e = TickE \<and> timeLeft (step usr rm e w) = timeLeft w - 1)"
proof (cases e)
  case (ClickAnswer k aid now okC okU)
  then show ?thesis
    using submitAnswer_local [of usr rm k aid now okC okU w] by simp
next
  case (FireE k)
  then show ?thesis
    by (simp add: timeLeft_fire split: timer.splits)
qed (simp_all add: timeLeft_loadGameData timeLeft_startGame_call timeLeft_startGame_resume
      timeLeft_sendReaction tick_def timeUp_def)

subsection \<open>The stored score after an accepted answer\<close>

text \<open>
  When both store calls succeed, a correct answer writes the score of the user's entry in
  the component's player list, plus 100, to the stored record with that entry's id; an
  incorrect answer, or a user with no entry in the list, leaves every stored score as it
  was.
\<close>

lemma submitAnswer_players:
  assumes "\<not> hasAnswered w" and "currentQuestion w = Some q"
  shows "db_players (db (submitAnswer usr rm k aid now True True w)) =
           (if k = q_correctAnswer q
            then (case find (\<lambda>p. p_userId p = u_id usr) (players w) of
                    None \<Rightarrow> db_players (db w)
                  | Some cp \<Rightarrow>
                      map (\<lambda>p. if p_id p = p_id cp then p\<lparr>p_score := p_score cp + 100\<rparr> else p)
                        (db_players (db w)))
            else db_players (db w))"
  using assms
  by (simp add: submitAnswer_def blink_gameAnswers_create_def blink_players_update_def
        schedule_results_def issue_def Let_def split: option.splits)

subsection \<open>Blank names and membership\<close>

lemma trim_empty_iff: "(trim s = []) = list_all is_ws s"
proof (cases "dropWhile is_ws s = []")
  case True
  then have "\<forall>c \<in> set s. is_ws c"
    by (simp only: dropWhile_eq_Nil_conv)
  then have "list_all is_ws s"
    by (simp only: list_all_iff)
  moreover have "trim s = []"
    unfolding trim_def True by simp
  ultimately show ?thesis by simp
next
  case False
  then have "\<not> is_ws (hd (dropWhile is_ws s))"
    by (rule hd_dropWhile)
  moreover have "hd (dropWhile is_ws s) \<in> set (rev (dropWhile is_ws s))"
    using False by simp
  ultimately have "\<not> (\<forall>c \<in> set (rev (dropWhile is_ws s)). is_ws c)"
    by blast
  then have "dropWhile is_ws (rev (dropWhile is_ws s)) \<noteq> []"
    by (simp only: dropWhile_eq_Nil_conv not_False_eq_True)
  then have t: "trim s \<noteq> []"
    by (simp add: trim_def)
  from False have "\<not> (\<forall>c \<in> set s. is_ws c)"
    by (simp only: dropWhile_eq_Nil_conv not_False_eq_True)
  then have "\<not> list_all is_ws s"
    by (simp only: list_all_iff not_False_eq_True)
  with t show ?thesis by simp
qed

lemma find_player_empty:
  "(find_player rid uid d = []) =
   (\<not> (\<exists>p \<in> set (db_players d). p_roomId p = rid \<and> p_userId p = uid))"
proof -
  have "(find_player rid uid d = []) =
        (filter (\<lambda>p. p_roomId p = rid \<and> p_userId p = uid) (db_players d) = [])"
    unfolding find_player_def
    by (cases "filter (\<lambda>p. p_roomId p = rid \<and> p_userId p = uid) (db_players d)") simp_all
  then show ?thesis
    by (simp only: filter_empty_conv) blast
qed

lemma joinRoom_existing:
  assumes "\<exists>p \<in> set (db_players (db l)). p_roomId p = r_id rm \<and> p_userId p = u_id usr"
  shows "db_players (db (joinRoom usr rm pid okL okC l)) = db_players (db l)
       \<and> calls (joinRoom usr rm pid okL okC l) = calls l @ [FindPlayer (r_id rm) (u_id usr)]"
  using assms
  by (simp add: joinRoom_def find_player_empty joined_def issue_def catch_error_def toast_def Let_def)

lemma joinRoom_member:
  "\<exists>p \<in> set (db_players (db (joinRoom usr rm pid True True l))).
      p_roomId p = r_id rm \<and> p_userId p = u_id usr"
  by (cases "find_player (r_id rm) (u_id usr) (db l) = []")
     (auto simp: joinRoom_def find_player_empty joined_def blink_players_create_def issue_def
        toast_def Let_def)

section \<open>The claims\<close>

text \<open>
  Claim C1 says that every accepted answer is recorded with the verdict
  \<open>answer = correctAnswer\<close> and that a correct answer raises the player's score by exactly
  100. The verdicts are recorded as claimed, but the score written by \<^verbatim>\<open>submitAnswer\<close> is
  the score in the component's player list plus 100, and that list is loaded once at mount
  and never refreshed. In the run below Alice answers both questions correctly: the store
  holds 100 after the first answer and still 100 after the second, while both stored
  verdicts are \<open>True\<close> and the component's list still shows 0.
\<close>

theorem second_correct_answer_keeps_score:
  "scores (run alice quiz first_answer_trace (initial store)) = Some ([100], [0], [True])
   \<and> scores (run alice quiz
        (first_answer_trace @ [ClickAnswer (js ''B'') (js ''a2'') (js ''t2'') True True])
        (initial store))
       = Some ([100], [0], [True, True])"
  by (simp add: scores_def first_answer_trace_def handler_defs example_defs Let_def)

text \<open>
  Claim C2 says that the game status starts as \<open>Waiting\<close> and only ever moves from \<open>Waiting\<close>
  to \<open>Playing\<close> (by \<^verbatim>\<open>startGame\<close>) and from \<open>Playing\<close> to \<open>Finished\<close> (by \<^verbatim>\<open>nextQuestion\<close> when
  the advanced index reaches the number of loaded questions), never backwards. The
  setters of \<^verbatim>\<open>startGame\<close> run after its awaited request without looking at the status, and
  the Start button is not disabled while a request is awaited. In the run
  \<open>double_start_trace\<close> the status is \<open>Waiting\<close> at first and after both clicks, \<open>Playing\<close>
  once the first request has settled, and \<open>Finished\<close> once \<^verbatim>\<open>nextQuestion\<close> has advanced the
  index to 2, the number of loaded questions; the second request is still awaited. When it
  settles, the status is \<open>Playing\<close> again, with question index 0 and the countdown at 15.
\<close>

theorem late_start_reopens_finished_game:
  "progress (Some (initial store)) = Some (Waiting, 0, 15, 0)
   \<and> progress (run alice quiz (take 3 double_start_trace) (initial store))
       = Some (Waiting, 0, 15, 2)
   \<and> progress (run alice quiz (take 4 double_start_trace) (initial store))
       = Some (Playing, 0, 15, 1)
   \<and> progress (run alice quiz (take 9 double_start_trace) (initial store))
       = Some (Playing, 1, 15, 1)
   \<and> progress (run alice quiz double_start_trace (initial store))
       = Some (Finished, 1, 15, 1)
   \<and> progress (run alice quiz (double_start_trace @ [StartResolved True]) (initial store))
       = Some (Playing, 0, 15, 0)"
  by (simp add: progress_def double_start_trace_def handler_defs example_defs Let_def)

text \<open>
  Claim C3: the countdown is 15 initially, after a successful \<^verbatim>\<open>startGame\<close> and after a
  \<^verbatim>\<open>nextQuestion\<close> that advances; the one-second timeout is armed exactly while the status
  is \<open>Playing\<close>, the countdown is positive and the player has not answered, and it
  decreases the countdown by exactly 1; after any sequence of events the countdown is not
  negative, no tick is armed at 0, and an event leaves the countdown as it was, sets it to
  15, or is a tick.
\<close>

theorem countdown_counter:
  assumes "run usr rm es (initial d) = Some w"
  shows "timeLeft (initial d) = 15
       \<and> timeLeft (startGame rm True v) = 15
       \<and> (i + 1 < length qs \<longrightarrow> timeLeft (nextQuestion i qs v) = 15 \<and> questionIndex (nextQuestion i qs v) = i + 1)
       \<and> enabled usr rm TickE v = (gameStatus v = Playing \<and> 0 < timeLeft v \<and> \<not> hasAnswered v)
       \<and> timeLeft (step usr rm TickE v) = timeLeft v - 1
       \<and> 0 \<le> timeLeft w
       \<and> (timeLeft w = 0 \<longrightarrow> \<not> enabled usr rm TickE w)
       \<and> (enabled usr rm e w \<longrightarrow>
            timeLeft (step usr rm e w) = timeLeft w \<or> timeLeft (step usr rm e w) = 15
            \<or> (e = TickE \<and> timeLeft (step usr rm e w) = timeLeft w - 1))"
proof -
  have inv: "room_inv w"
    using room_inv_initial assms by (rule room_inv_run)
  have a: "timeLeft (initial d) = 15" by (simp add: initial_def)
  have b: "timeLeft (startGame rm True v) = 15" by (simp add: timeLeft_startGame)
  have c: "i + 1 < length qs \<longrightarrow> timeLeft (nextQuestion i qs v) = 15 \<and> questionIndex (nextQuestion i qs v) = i + 1"
    by (simp add: nextQuestion_def Let_def)
  have d: "enabled usr rm TickE v = (gameStatus v = Playing \<and> 0 < timeLeft v \<and> \<not> hasAnswered v)"
    by (simp add: timerEffect_def)
  have e: "timeLeft (step usr rm TickE v) = timeLeft v - 1" by (simp add: tick_def)
  have f: "0 \<le> timeLeft w" using inv by (simp add: room_inv_def)
  have g: "timeLeft w = 0 \<longrightarrow> \<not> enabled usr rm TickE w" by (simp add: timerEffect_def)
  have h: "enabled usr rm e w \<longrightarrow>
            timeLeft (step usr rm e w) = timeLeft w \<or> timeLeft (step usr rm e w) = 15
            \<or> (e = TickE \<and> timeLeft (step usr rm e w) = timeLeft w - 1)"
    using inv timeLeft_step by blast
  from a b c d e f g h show ?thesis by blast
qed

theorem countdown_counter_witness:
  "run alice quiz [Loaded True True, ClickStart, StartResolved True, TickE] (initial store)
     = Some (tick (startGame quiz True loaded_world))
   \<and> timeLeft (startGame quiz True loaded_world) = 15
   \<and> timeLeft (tick (startGame quiz True loaded_world)) = 14
   \<and> 0 \<le> timeLeft (tick (startGame quiz True loaded_world))"
proof -
  have r: "run alice quiz [Loaded True True, ClickStart, StartResolved True, TickE] (initial store)
     = Some (tick (startGame quiz True loaded_world))"
    by (simp add: handler_defs example_defs Let_def)
  from countdown_counter [OF r, where v = "startGame quiz True loaded_world" and i = 0
      and qs = "questions loaded_world" and e = TickE] r
  show ?thesis
    by (simp add: handler_defs example_defs Let_def)
qed

text \<open>
  Claim C4: \<^verbatim>\<open>submitAnswer\<close> returns without any effect exactly when \<^verbatim>\<open>hasAnswered\<close> is set
  or there is no current question. Otherwise, whatever the countdown shows, it marks the
  player as having answered and issues the create call for the answer record, which is
  stored when the call succeeds; the store after the call is the same with the countdown
  at 0; and with the countdown at 0 the four answer buttons are still enabled.
\<close>

theorem submitAnswer_ignores_timer:
  "(submitAnswer usr rm k aid now okC okU w = w) = (hasAnswered w \<or> currentQuestion w = None)
   \<and> (\<not> hasAnswered w \<and> currentQuestion w = Some q \<longrightarrow>
        hasAnswered (submitAnswer usr rm k aid now okC okU w)
        \<and> selectedAnswer (submitAnswer usr rm k aid now okC okU w) = Some k
        \<and> take (Suc (length (calls w))) (calls (submitAnswer usr rm k aid now okC okU w)) =
            calls w @ [CreateAnswer \<lparr>a_id = aid, a_roomId = r_id rm, a_questionId = q_id q,
                         a_userId = u_id usr, a_selectedAnswer = k,
                         a_isCorrect = (k = q_correctAnswer q), a_answeredAt = now\<rparr>]
        \<and> db_gameAnswers (db (submitAnswer usr rm k aid now okC okU w)) =
            (if okC
             then db_gameAnswers (db w) @
                    [\<lparr>a_id = aid, a_roomId = r_id rm, a_questionId = q_id q,
                      a_userId = u_id usr, a_selectedAnswer = k,
                      a_isCorrect = (k = q_correctAnswer q), a_answeredAt = now\<rparr>]
             else db_gameAnswers (db w)))
   \<and> db (submitAnswer usr rm k aid now okC okU (w\<lparr>timeLeft := 0\<rparr>))
       = db (submitAnswer usr rm k aid now okC okU w)
   \<and> (\<not> loading w \<and> gameStatus w = Playing \<and> \<not> hasAnswered w \<and> currentQuestion w = Some q
        \<and> timeLeft w = 0 \<longrightarrow>
        set (map SubmitAnswer [js ''A'', js ''B'', js ''C'', js ''D'']) \<subseteq> set (offered usr rm w))"
proof -
  have a: "(submitAnswer usr rm k aid now okC okU w = w) = (hasAnswered w \<or> currentQuestion w = None)"
  proof (cases "currentQuestion w")
    case None
    then show ?thesis by (simp add: submitAnswer_def)
  next
    case (Some q')
    show ?thesis
    proof (cases "hasAnswered w")
      case True
      with Some show ?thesis by (simp add: submitAnswer_def)
    next
      case False
      have "hasAnswered (submitAnswer usr rm k aid now okC okU w)"
        using Some False
        by (simp add: submitAnswer_def blink_gameAnswers_create_def blink_players_update_def
              schedule_results_def issue_def catch_error_def toast_def Let_def split: option.splits)
      with False have "submitAnswer usr rm k aid now okC okU w \<noteq> w" by auto
      with Some False show ?thesis by simp
    qed
  qed
  have b: "\<not> hasAnswered w \<and> currentQuestion w = Some q \<longrightarrow>
        hasAnswered (submitAnswer usr rm k aid now okC okU w)
        \<and> selectedAnswer (submitAnswer usr rm k aid now okC okU w) = Some k
        \<and> take (Suc (length (calls w))) (calls (submitAnswer usr rm k aid now okC okU w)) =
            calls w @ [CreateAnswer \<lparr>a_id = aid, a_roomId = r_id rm, a_questionId = q_id q,
                         a_userId = u_id usr, a_selectedAnswer = k,
                         a_isCorrect = (k = q_correctAnswer q), a_answeredAt = now\<rparr>]
        \<and> db_gameAnswers (db (submitAnswer usr rm k aid now okC okU w)) =
            (if okC
             then db_gameAnswers (db w) @
                    [\<lparr>a_id = aid, a_roomId = r_id rm, a_questionId = q_id q,
                      a_userId = u_id usr, a_selectedAnswer = k,
                      a_isCorrect = (k = q_correctAnswer q), a_answeredAt = now\<rparr>]
             else db_gameAnswers (db w))"
    by (simp add: submitAnswer_def blink_gameAnswers_create_def blink_players_update_def
          schedule_results_def issue_def catch_error_def toast_def Let_def split: option.splits)
  have c: "db (submitAnswer usr rm k aid now okC okU (w\<lparr>timeLeft := 0\<rparr>))
       = db (submitAnswer usr rm k aid now okC okU w)"
    by (simp add: submitAnswer_def blink_gameAnswers_create_def blink_players_update_def
          schedule_results_def issue_def catch_error_def toast_def Let_def split: option.splits)
  have d: "\<not> loading w \<and> gameStatus w = Playing \<and> \<not> hasAnswered w \<and> currentQuestion w = Some q
        \<and> timeLeft w = 0 \<longrightarrow>
        set (map SubmitAnswer [js ''A'', js ''B'', js ''C'', js ''D'']) \<subseteq> set (offered usr rm w)"
    by (simp add: offered_SubmitAnswer)
  from a b c d show ?thesis by blast
qed

theorem submitAnswer_ignores_timer_witness:
  "\<not> hasAnswered (loaded_world\<lparr>timeLeft := 0\<rparr>)
   \<and> currentQuestion (loaded_world\<lparr>timeLeft := 0\<rparr>) = Some (mk_question ''q1'' ''A'')
   \<and> db_gameAnswers (db (submitAnswer alice quiz (js ''B'') (js ''a1'') (js ''t1'') True True
         (loaded_world\<lparr>timeLeft := 0\<rparr>)))
       = [\<lparr>a_id = js ''a1'', a_roomId = js ''r1'', a_questionId = js ''q1'', a_userId = js ''u1'',
           a_selectedAnswer = js ''B'', a_isCorrect = False, a_answeredAt = js ''t1''\<rparr>]"
proof -
  have h: "\<not> hasAnswered (loaded_world\<lparr>timeLeft := 0\<rparr>)
     \<and> currentQuestion (loaded_world\<lparr>timeLeft := 0\<rparr>) = Some (mk_question ''q1'' ''A'')"
    by (simp add: handler_defs example_defs Let_def)
  from submitAnswer_ignores_timer [where usr = alice and rm = quiz and k = "js ''B''"
      and aid = "js ''a1''" and now = "js ''t1''" and okC = True and okU = True
      and w = "loaded_world\<lparr>timeLeft := 0\<rparr>" and q = "mk_question ''q1'' ''A''"] h
  show ?thesis
    by (simp add: handler_defs example_defs Let_def)
qed

text \<open>
  Claim C5: on the waiting screen the Start Game button is offered if and only if the
  user's id is the room's \<^verbatim>\<open>hostUserId\<close>; for any other user no control of the rendered
  screen invokes \<^verbatim>\<open>startGame\<close>, in whatever state.
\<close>

theorem start_offered_iff_host:
  "(\<not> loading w \<and> gameStatus w = Waiting \<longrightarrow>
      (StartGame \<in> set (offered usr rm w)) = (r_hostUserId rm = u_id usr))
   \<and> (r_hostUserId rm \<noteq> u_id usr \<longrightarrow>
        StartGame \<notin> fst ` set (controls (render usr rm w)))"
  by (auto simp: offered_StartGame isHost_def render_def room_controls_def split: option.splits)

theorem start_offered_iff_host_witness:
  "\<not> loading loaded_world \<and> gameStatus loaded_world = Waiting
   \<and> StartGame \<in> set (offered alice quiz loaded_world)
   \<and> r_hostUserId quiz \<noteq> u_id bob
   \<and> StartGame \<notin> fst ` set (controls (render bob quiz loaded_world))"
proof -
  have h: "\<not> loading loaded_world \<and> gameStatus loaded_world = Waiting"
    by (simp add: handler_defs example_defs Let_def)
  have a: "r_hostUserId quiz = u_id alice"
    by (simp add: example_defs)
  have b: "r_hostUserId quiz \<noteq> u_id bob"
    by (simp add: example_defs)
  from start_offered_iff_host [where w = loaded_world and usr = alice and rm = quiz]
       start_offered_iff_host [where w = loaded_world and usr = bob and rm = quiz] h a b
  show ?thesis by blast
qed

text \<open>
  Claim C6: when the room update of \<^verbatim>\<open>startGame\<close> throws, the world changes only by the
  one issued update call, the logged error and the destructive toast: status, countdown,
  question index, scheduled timeouts and store are as before, and no second call is issued.
\<close>

theorem startGame_failure:
  "startGame rm False w =
     w\<lparr>calls := calls w @ [UpdateRoom (r_id rm) Playing 0],
       out := out w @ [ConsoleError (js ''Failed to start game:''),
                       Toast (js ''Error'') (js ''Failed to start game'') Destructive]\<rparr>
   \<and> gameStatus (startGame rm False w) = gameStatus w
   \<and> timeLeft (startGame rm False w) = timeLeft w
   \<and> questionIndex (startGame rm False w) = questionIndex w
   \<and> timers (startGame rm False w) = timers w
   \<and> db (startGame rm False w) = db w"
  by (simp add: startGame_def startGame_call_def startGame_resume_def issue_def catch_error_def
        toast_def Let_def)

text \<open>
  Claim C7: the finished screen shows the loaded players sorted by score in descending
  order, each exactly once, and the winner is the head of that list: unless no player is
  loaded, a loaded player whose score no loaded player exceeds.
\<close>

theorem finished_leaderboard:
  assumes "\<not> loading w" and "gameStatus w = Finished"
  shows "render usr rm w = GameComplete (sortedPlayers (players w)) (winner (players w)) [(LeaveRoom, False)]
    \<and> mset (sortedPlayers (players w)) = mset (players w)
    \<and> sorted_wrt (\<lambda>a b. p_score b \<le> p_score a) (sortedPlayers (players w))
    \<and> winner (players w) = (case sortedPlayers (players w) of [] \<Rightarrow> None | p # _ \<Rightarrow> Some p)
    \<and> (players w = [] \<or>
        (\<exists>p. winner (players w) = Some p \<and> p \<in> set (players w)
           \<and> (\<forall>q \<in> set (players w). p_score q \<le> p_score p)))"
  using assms winner_maximal [of "players w"]
  by (auto simp: render_def mset_sortedPlayers sorted_sortedPlayers winner_def)

theorem finished_leaderboard_witness:
  "\<not> loading finished_world \<and> gameStatus finished_world = Finished
   \<and> map p_score (sortedPlayers (players finished_world)) = [300, 100]
   \<and> map_option p_displayName (winner (players finished_world)) = Some (js ''Bob'')"
proof -
  have l: "\<not> loading finished_world"
    by (simp add: example_defs)
  have g: "gameStatus finished_world = Finished"
    by (simp add: example_defs)
  from finished_leaderboard [OF l g, where usr = alice and rm = quiz] l g show ?thesis
    by (simp add: handler_defs example_defs)
qed

text \<open>
  Claim C8: when the store already holds a player record for the room and the user,
  \<^verbatim>\<open>joinRoom\<close> issues the membership query and nothing else, and the player records are
  as before, whatever the outcomes of its calls; hence after a join whose calls succeeded,
  a second join of the same user to the same room leaves the player records unchanged.
\<close>

theorem joinRoom_idempotent:
  "((\<exists>p \<in> set (db_players (db l)). p_roomId p = r_id rm \<and> p_userId p = u_id usr) \<longrightarrow>
      db_players (db (joinRoom usr rm pid okL okC l)) = db_players (db l)
      \<and> calls (joinRoom usr rm pid okL okC l) = calls l @ [FindPlayer (r_id rm) (u_id usr)])
   \<and> db_players (db (joinRoom usr rm pidB okLB okCB (joinRoom usr rm pidA True True l)))
       = db_players (db (joinRoom usr rm pidA True True l))"
  using joinRoom_existing [where l = l and rm = rm and usr = usr and pid = pid
          and okL = okL and okC = okC]
        joinRoom_existing [where l = "joinRoom usr rm pidA True True l" and rm = rm
          and usr = usr and pid = pidB and okL = okLB and okC = okCB]
        joinRoom_member [where l = l and rm = rm and usr = usr and pid = pidA]
  by blast

theorem joinRoom_idempotent_witness:
  "(\<exists>p \<in> set (db_players (db (lobby0 []))). p_roomId p = r_id quiz \<and> p_userId p = u_id alice)
   \<and> db_players (db (joinRoom alice quiz (js ''p9'') True True (lobby0 []))) = [alice_player]
   \<and> length (db_players (db (joinRoom bob quiz (js ''p3'') True True
                (joinRoom bob quiz (js ''p2'') True True (lobby0 []))))) = 2"
proof -
  have h: "\<exists>p \<in> set (db_players (db (lobby0 []))). p_roomId p = r_id quiz \<and> p_userId p = u_id alice"
    by (simp add: example_defs)
  have n: "length (db_players (db (joinRoom bob quiz (js ''p2'') True True (lobby0 [])))) = 2"
    by (simp add: joinRoom_def find_player_def joined_def blink_players_create_def issue_def
          toast_def example_defs Let_def)
  from joinRoom_idempotent [where l = "lobby0 []" and rm = quiz and usr = alice
         and pid = "js ''p9''" and okL = True and okC = True]
       joinRoom_idempotent [where l = "lobby0 []" and rm = quiz and usr = bob
         and pidB = "js ''p3''" and okLB = True and okCB = True and pidA = "js ''p2''"] h n
  show ?thesis
    by (simp add: example_defs)
qed

text \<open>
  Claim C9: the name is blank (its trimmed form is empty) exactly when it is empty or
  consists of whitespace only. For a blank name \<^verbatim>\<open>createRoom\<close> emits the destructive toast
  and changes nothing else: no call is issued and the store is as before. For any other
  name the room record it creates has status \<open>Waiting\<close> and question index 0 and is stored
  when the call succeeds, and then the creator's player record with score 0 is stored when
  that call succeeds as well.
\<close>

theorem createRoom_blank_or_created:
  "(trim (newRoomName l) = []) = list_all is_ws (newRoomName l)
   \<and> (trim (newRoomName l) = [] \<longrightarrow>
        createRoom usr rid pid t okR okP l =
          l\<lparr>out := out l @ [Toast (js ''Error'') (js ''Please enter a room name'') Destructive]\<rparr>
        \<and> db (createRoom usr rid pid t okR okP l) = db l
        \<and> calls (createRoom usr rid pid t okR okP l) = calls l)
   \<and> (trim (newRoomName l) \<noteq> [] \<longrightarrow>
        db_rooms (db (createRoom usr rid pid t okR okP l)) =
          (if okR
           then db_rooms (db l) @
                  [\<lparr>r_id = rid, r_name = trim (newRoomName l), r_hostUserId = u_id usr,
                    r_status = Waiting, r_currentQuestionIndex = 0, r_createdAt = t\<rparr>]
           else db_rooms (db l))
        \<and> db_players (db (createRoom usr rid pid t okR okP l)) =
          (if okR \<and> okP
           then db_players (db l) @
                  [\<lparr>p_id = pid, p_roomId = rid, p_userId = u_id usr,
                    p_displayName = displayNameOf usr, p_score = 0\<rparr>]
           else db_players (db l)))"
  by (simp add: trim_empty_iff createRoom_def blink_rooms_create_def blink_players_create_def
        issue_def catch_error_def toast_def Let_def)

theorem createRoom_blank_or_created_witness:
  "trim (newRoomName (lobby0 (js ''  ''))) = []
   \<and> db (createRoom alice (js ''r2'') (js ''p2'') (js ''t1'') True True (lobby0 (js ''  ''))) = store
   \<and> trim (newRoomName (lobby0 (js '' Fun ''))) \<noteq> []
   \<and> map r_name (db_rooms (db (createRoom alice (js ''r2'') (js ''p2'') (js ''t1'') True True
        (lobby0 (js '' Fun ''))))) = [js ''Quiz'', js ''Fun'']
   \<and> map p_score (db_players (db (createRoom alice (js ''r2'') (js ''p2'') (js ''t1'') True True
        (lobby0 (js '' Fun ''))))) = [0, 0]"
proof -
  have b: "trim (newRoomName (lobby0 (js ''  ''))) = []"
    by (simp add: trim_def is_ws_def example_defs)
  have n: "trim (newRoomName (lobby0 (js '' Fun ''))) = js ''Fun''"
    by (simp add: trim_def is_ws_def example_defs)
  from createRoom_blank_or_created [where l = "lobby0 (js ''  '')" and usr = alice
         and rid = "js ''r2''" and pid = "js ''p2''" and t = "js ''t1''" and okR = True
         and okP = True]
       createRoom_blank_or_created [where l = "lobby0 (js '' Fun '')" and usr = alice
         and rid = "js ''r2''" and pid = "js ''p2''" and t = "js ''t1''" and okR = True
         and okP = True]
       b n
  show ?thesis
    by (simp add: example_defs)
qed

text \<open>
  Claim C10 says that a client submits at most one answer per question: after
  \<^verbatim>\<open>submitAnswer\<close> has run, further calls before the next question do nothing, and
  \<^verbatim>\<open>hasAnswered\<close> is reset only when \<^verbatim>\<open>nextQuestion\<close> advances to a further question. The
  timeouts that call \<^verbatim>\<open>nextQuestion\<close> are never cleared and carry the question index of the
  render that scheduled them. After the run \<open>late_answer_trace\<close> the second question is
  current and answered, and a \<^verbatim>\<open>nextQuestion\<close> of the first question's render is still
  scheduled. When it fires, the second question stays current and \<^verbatim>\<open>hasAnswered\<close> is
  reset; the next click stores a second answer to the second question.
\<close>

theorem stale_timeout_allows_second_answer:
  "answered (run alice quiz late_answer_trace (initial store))
     = Some (1, True, [js ''q1'', js ''q2''])
   \<and> answered (run alice quiz (late_answer_trace @ [FireE 0]) (initial store))
       = Some (1, False, [js ''q1'', js ''q2''])
   \<and> answered (run alice quiz (late_answer_trace @
         [FireE 0, ClickAnswer (js ''B'') (js ''a3'') (js ''t3'') True True]) (initial store))
       = Some (1, True, [js ''q1'', js ''q2'', js ''q2''])"
  by (simp add: answered_def late_answer_trace_def handler_defs example_defs Let_def)

end
